theory Spec2Isabelle
  imports Complex_Main
begin

section \<open>Values of the host language\<close>

text \<open>
  The action is TypeScript, but everything it receives from the model provider goes
  through \<^verbatim>\<open>JSON.parse\<close> and is used without a check of its shape, so the
  values the program handles at run time are modelled as they are: JSON values.
  \<^verbatim>\<open>undefined\<close> is \<open>None\<close> of \<open>json option\<close>.
\<close>

datatype json =
    JNull
  | JBool bool
  | JNum rat
  | JStr string
  | JArr "json list"
  | JObj "(string \<times> json) list"

text \<open>
  What the program can throw: a \<^verbatim>\<open>TypeError\<close> (a property read on
  \<^verbatim>\<open>null\<close>, a call of something that is not a function), the
  \<^verbatim>\<open>SyntaxError\<close> of \<^verbatim>\<open>JSON.parse\<close>, and the rejection of a request by the
  source-control host or the model provider.
\<close>

datatype error = TypeError | SyntaxError | RequestError string

text \<open>The truth value the conditions \<^verbatim>\<open>if (v)\<close> and \<^verbatim>\<open>!v\<close> take for a value.\<close>

fun truthy :: "json option \<Rightarrow> bool" where
  "truthy None = False"
| "truthy (Some JNull) = False"
| "truthy (Some (JBool b)) = b"
| "truthy (Some (JNum r)) = (r \<noteq> 0)"
| "truthy (Some (JStr s)) = (s \<noteq> [])"
| "truthy (Some (JArr xs)) = True"
| "truthy (Some (JObj kvs)) = True"

text \<open>
  The property read \<^verbatim>\<open>v.key\<close> for the keys the program reads
  (\<^verbatim>\<open>reviews\<close>, \<^verbatim>\<open>lineNumber\<close>, \<^verbatim>\<open>reviewComment\<close>, none of which
  is a built-in property of a string, number, boolean or array): it throws on
  \<^verbatim>\<open>null\<close>, looks the key up in an object, and is \<^verbatim>\<open>undefined\<close> on
  everything else. An object is an association list with one entry for each key, as
  \<^verbatim>\<open>JSON.parse\<close> builds it.
\<close>

fun readProperty :: "json \<Rightarrow> string \<Rightarrow> error + json option" where
  "readProperty JNull key = Inl TypeError"
| "readProperty (JObj kvs) key = Inr (map_of kvs key)"
| "readProperty v key = Inr None"

text \<open>
  \<^verbatim>\<open>String.prototype.trim\<close> on ASCII text: tab, line feed, vertical tab, form
  feed, carriage return and space are removed at both ends.
\<close>

definition isWhiteSpace :: "char \<Rightarrow> bool" where
  "isWhiteSpace c = (c \<in> set [CHR 0x09, CHR 0x0A, CHR 0x0B, CHR 0x0C, CHR 0x0D, CHR 0x20])"

definition trim :: "string \<Rightarrow> string" where
  "trim s = rev (dropWhile isWhiteSpace (rev (dropWhile isWhiteSpace s)))"

text \<open>
  \<^verbatim>\<open>s.split(",")\<close>: the pieces between the commas, empty pieces kept; the empty
  string gives one empty piece.
\<close>

fun splitOn :: "char \<Rightarrow> string \<Rightarrow> string list" where
  "splitOn sep [] = [[]]"
| "splitOn sep (c # cs) =
     (if c = sep then [] # splitOn sep cs
      else (case splitOn sep cs of
              [] \<Rightarrow> [[c]]
            | piece # pieces \<Rightarrow> (c # piece) # pieces))"

text \<open>The decimal spelling of an integer, as a template literal prints a line number.\<close>

fun showNat :: "nat \<Rightarrow> string" where
  "showNat n =
     (if n < 10 then [''0123456789'' ! n]
      else showNat (n div 10) @ [''0123456789'' ! (n mod 10)])"

declare showNat.simps [simp del]

definition showInt :: "int \<Rightarrow> string" where
  "showInt i = (if i < 0 then CHR ''-'' # showNat (nat (- i)) else showNat (nat i))"

text \<open>\<^verbatim>\<open>xs.join(sep)\<close>.\<close>

fun join :: "string \<Rightarrow> string list \<Rightarrow> string" where
  "join sep [] = []"
| "join sep [x] = x"
| "join sep (x # y # ys) = x @ sep @ join sep (y # ys)"

text \<open>
  The elements of \<^verbatim>\<open>new Set(xs)\<close> in the order \<^verbatim>\<open>Array.from\<close> lists them:
  each value once, at the place of its first occurrence.
\<close>

fun insertionOrder :: "'a list \<Rightarrow> 'a list \<Rightarrow> 'a list" where
  "insertionOrder seen [] = rev seen"
| "insertionOrder seen (x # xs) =
     (if x \<in> set seen then insertionOrder seen xs else insertionOrder (x # seen) xs)"

section \<open>The diff, as parse-diff delivers it\<close>

text \<open>
  A \<^verbatim>\<open>Change\<close> of parse-diff is an object that carries one of the keys
  \<^verbatim>\<open>normal\<close>, \<^verbatim>\<open>add\<close>, \<^verbatim>\<open>del\<close>, and the program classifies a change
  by which key is present (\<^verbatim>\<open>"normal" in change\<close>). The record keeps the presence of
  each key as a boolean and each line-number property as an option (\<open>None\<close> when the
  property is absent or \<^verbatim>\<open>undefined\<close>). Line numbers are integers: parse-diff counts
  them up from the numbers of the hunk header.
\<close>

record Change =
  normal :: bool
  add :: bool
  del :: bool
  ln :: "int option"
  ln1 :: "int option"
  ln2 :: "int option"
  content :: string

record Chunk =
  content :: string
  changes :: "Change list"

record File =
  to :: "string option"
  chunks :: "Chunk list"

text \<open>
  The changes parse-diff produces: exactly one of the three keys; a context line carries
  both \<^verbatim>\<open>ln1\<close> and \<^verbatim>\<open>ln2\<close>, an added or deleted line carries \<^verbatim>\<open>ln\<close>; no
  line number is negative.
\<close>

definition lineNumberDefined :: "int option \<Rightarrow> bool" where
  "lineNumberDefined l = (case l of None \<Rightarrow> False | Some n \<Rightarrow> 0 \<le> n)"

definition wellFormedChange :: "Change \<Rightarrow> bool" where
  "wellFormedChange c =
     (if normal c then \<not> add c \<and> \<not> del c \<and> lineNumberDefined (ln1 c) \<and> lineNumberDefined (ln2 c)
      else if add c then \<not> del c \<and> lineNumberDefined (ln c)
      else del c \<and> lineNumberDefined (ln c))"

subsection \<open>getLineNumber, isAddOrDel\<close>

definition getLineNumber :: "Change \<Rightarrow> int option" where
  "getLineNumber change =
     (if normal change then ln2 change
      else if add change then ln change
      else if del change then ln change
      else None)"

definition isAddOrDel :: "Change \<Rightarrow> bool" where
  "isAddOrDel change = (add change \<or> del change)"

text \<open>
  The chain \<^verbatim>\<open>chunk.changes.filter(isAddOrDel).map(getLineNumber).filter(ln => ln !== undefined)\<close>,
  which both \<^verbatim>\<open>createPrompt\<close> and \<^verbatim>\<open>createComment\<close> put into a \<^verbatim>\<open>Set\<close>.
\<close>

definition changedLineNumbers :: "Chunk \<Rightarrow> int list" where
  "changedLineNumbers chunk =
     map the (filter (\<lambda>ln. ln \<noteq> None) (map getLineNumber (filter isAddOrDel (changes chunk))))"

text \<open>\<^verbatim>\<open>changedLines\<close> of \<^verbatim>\<open>createPrompt\<close>, in the order the prompt lists it.\<close>

definition changedLines :: "Chunk \<Rightarrow> int list" where
  "changedLines chunk = insertionOrder [] (changedLineNumbers chunk)"

text \<open>\<^verbatim>\<open>validLines\<close> of \<^verbatim>\<open>createComment\<close>.\<close>

definition validLines :: "Chunk \<Rightarrow> int set" where
  "validLines chunk = set (changedLineNumbers chunk)"

section \<open>The pull request, the prompt and the model request\<close>

record PRDetails =
  owner :: string
  repo :: string
  pull_number :: int
  title :: string
  description :: string

text \<open>
  Characters that cannot stand in a string literal of the theory: the double quote and
  three backquotes (the fence of a code block).
\<close>

definition quote :: string where
  "quote = [CHR 0x22]"

definition fence :: string where
  "fence = [CHR 0x60, CHR 0x60, CHR 0x60]"

definition apostrophe :: string where
  "apostrophe = [CHR 0x27]"

text \<open>
  \<^verbatim>\<open>createPrompt\<close>. A missing \<^verbatim>\<open>file.to\<close> prints as \<^verbatim>\<open>undefined\<close>, and the
  line number at the head of a diff line prints as nothing when it is missing or zero
  (\<^verbatim>\<open>getLineNumber(c) || ""\<close>).
\<close>

definition contextSection :: "string option \<Rightarrow> string" where
  "contextSection fullFileContent =
     (case fullFileContent of
        None \<Rightarrow> []
      | Some text \<Rightarrow>
          if text = [] then []
          else ''\<newline>Full file context:\<newline>'' @ fence @ ''\<newline>'' @ text @ ''\<newline>'' @ fence
               @ ''\<newline>'')"

definition diffLine :: "Change \<Rightarrow> string" where
  "diffLine c =
     (case getLineNumber c of
        None \<Rightarrow> []
      | Some n \<Rightarrow> if n = 0 then [] else showInt n) @ '' '' @ Change.content c"

definition createPrompt :: "File \<Rightarrow> Chunk \<Rightarrow> PRDetails \<Rightarrow> string option \<Rightarrow> string" where
  "createPrompt file chunk prDetails fullFileContent =
     ''You are an expert code reviewer focused on identifying only critical issues. Instructions:\<newline>''
     @ ''\<newline>''
     @ ''- Provide the response in following JSON format: {'' @ quote @ ''reviews'' @ quote
     @ '': [{'' @ quote @ ''lineNumber'' @ quote @ '': <line_number>, '' @ quote @ ''reviewComment''
     @ quote @ '': '' @ quote @ ''<review comment>'' @ quote @ ''}]}\<newline>''
     @ ''- ONLY comment on the most critical issues that fall into these categories:\<newline>''
     @ ''  1. High-impact bugs that could cause system failures or data corruption\<newline>''
     @ ''  2. Critical security vulnerabilities that could lead to exploits\<newline>''
     @ ''  3. Severe performance issues that could cause system bottlenecks\<newline>''
     @ ''  4. Major architectural flaws that significantly impact maintainability\<newline>''
     @ ''  5. Critical business logic flaws that could lead to system misbehavior\<newline>''
     @ ''- You may only comment on the following changed line numbers: ''
     @ join '', '' (map showInt (changedLines chunk)) @ ''\<newline>''
     @ ''- Completely ignore:\<newline>''
     @ ''  * Style issues or formatting\<newline>''
     @ ''  * Documentation\<newline>''
     @ ''  * Minor optimizations\<newline>''
     @ ''  * Naming conventions\<newline>''
     @ ''  * Code organization suggestions\<newline>''
     @ ''  * Any issue that isn'' @ apostrophe @ ''t immediately critical\<newline>''
     @ ''- Only provide comments when you are highly confident (90%+) that the issue is severe\<newline>''
     @ ''- Write comments in GitHub Markdown format\<newline>''
     @ ''- Be direct and specific about the severe impact of each issue\<newline>''
     @ ''- If you don'' @ apostrophe @ ''t find any critical issues, return an empty reviews array\<newline>''
     @ ''\<newline>''
     @ ''Review the following code diff in the file '' @ quote
     @ (case to file of None \<Rightarrow> ''undefined'' | Some p \<Rightarrow> p)
     @ quote @ '' considering the pull request context:\<newline>''
     @ ''  \<newline>''
     @ ''Pull request title: '' @ title prDetails @ ''\<newline>''
     @ ''Pull request description:\<newline>''
     @ ''\<newline>''
     @ ''---\<newline>''
     @ description prDetails @ ''\<newline>''
     @ ''---\<newline>''
     @ contextSection fullFileContent @ ''\<newline>''
     @ ''Git diff to review:\<newline>''
     @ ''\<newline>''
     @ fence @ ''diff\<newline>''
     @ Chunk.content chunk @ ''\<newline>''
     @ join ''\<newline>'' (map diffLine (changes chunk)) @ ''\<newline>''
     @ fence @ ''\<newline>''"

text \<open>
  The request \<^verbatim>\<open>getAIResponse\<close> sends: \<^verbatim>\<open>queryConfig\<close>, the response format
  and the two messages (role and content).
\<close>

record ChatRequest =
  model :: string
  temperature :: rat
  max_tokens :: int
  top_p :: rat
  frequency_penalty :: rat
  presence_penalty :: rat
  response_format :: string
  messages :: "(string \<times> string) list"

definition chatRequest :: "string \<Rightarrow> ChatRequest" where
  "chatRequest prompt =
     \<lparr> model = ''gpt-4o-2024-11-20'',
       temperature = 1 / 10,
       max_tokens = 1000,
       top_p = 1,
       frequency_penalty = 1 / 10,
       presence_penalty = 1 / 10,
       response_format = ''json_object'',
       messages =
         [(''system'',
           ''You are an expert code reviewer. Only respond with the requested JSON format.''),
          (''user'', prompt)] \<rparr>"

record ReviewComment =
  body :: "json option"
  path :: string
  line :: int

section \<open>The collaborators\<close>

text \<open>
  Every call the program makes to the outside is recorded, in order: the requests to the
  source-control host, the request to the model provider, the call of the diff parser,
  and what is written to the console.
\<close>

datatype effect =
    PullsGet string string int
  | PullsGetDiff string string int
  | CompareCommits string string "json option" "json option"
  | GetContent string string "string option" string
  | ChatCompletionsCreate ChatRequest
  | CreateReview string string int "ReviewComment list"
  | ParseDiff string
  | ConsoleLog string
  | ConsoleError error

text \<open>
  The event payload (the file at \<^verbatim>\<open>GITHUB_EVENT_PATH\<close>), with the properties the
  program reads.
\<close>

record Event =
  action :: "json option"
  before :: "json option"
  after :: "json option"
  repository_owner_login :: string
  repository_name :: string
  number :: int

text \<open>
  The surroundings of one run. The answers of the host and of the model provider may
  depend on everything that happened before, so each takes the record of effects so far.
  \<^item> \<open>getInput\<close>: \<^verbatim>\<open>core.getInput\<close>, the configuration surface.
  \<^item> \<open>eventPayload\<close>: reading and parsing the event file, and reading
    \<^verbatim>\<open>repository.owner.login\<close> from it; \<open>Inl\<close> when one of these throws. The file
    does not change during a run.
  \<^item> \<open>pullsGet\<close>: \<^verbatim>\<open>octokit.pulls.get\<close>, answering with the title and the body of
    the pull request (each may be \<^verbatim>\<open>null\<close>); \<open>pullsGetDiff\<close>: the same request in
    diff format, answering with the diff text.
  \<^item> \<open>compareCommits\<close>: \<^verbatim>\<open>octokit.repos.compareCommits\<close>, with
    \<^verbatim>\<open>String(response.data)\<close> as its answer.
  \<^item> \<open>getContent\<close>: \<^verbatim>\<open>octokit.repos.getContent\<close>; the answer is the decoded
    content when the response carries a string \<^verbatim>\<open>content\<close>, and \<open>None\<close> otherwise.
  \<^item> \<open>chatCompletionsCreate\<close>: \<^verbatim>\<open>openai.chat.completions.create\<close>; the answer is
    the list of choices, each with its \<^verbatim>\<open>message?.content\<close>.
  \<^item> \<open>createReview\<close>: \<^verbatim>\<open>octokit.pulls.createReview\<close>; \<open>Some e\<close> when it rejects.
  \<^item> \<open>parseDiff\<close>, \<open>minimatch\<close>: the two libraries.
  \<^item> \<open>JSON_parse\<close>: \<^verbatim>\<open>JSON.parse\<close>, \<open>None\<close> when it throws a SyntaxError.
  \<^item> \<open>Number\<close>: the conversion \<^verbatim>\<open>Number(v)\<close>. It is \<open>Inl\<close> when the conversion
    throws: a parsed object or array has no primitive value when its \<^verbatim>\<open>toString\<close>
    is not callable, as for \<^verbatim>\<open>{"toString": null}\<close>. Otherwise it is \<open>Inr (Some n)\<close>
    when the result is the integer \<open>n\<close> and \<open>Inr None\<close> when it is anything else
    (\<^verbatim>\<open>NaN\<close>, an infinity, a fraction). The line numbers of a chunk are integers,
    so a result that is no integer is in no \<^verbatim>\<open>Set\<close> of them. (\<^verbatim>\<open>Set.has\<close> takes
    \<^verbatim>\<open>-0\<close> for \<^verbatim>\<open>0\<close>; the model does not tell the two zeros apart.)
\<close>

record Env =
  getInput :: "string \<Rightarrow> string"
  eventPayload :: "error + Event"
  pullsGet :: "effect list \<Rightarrow> string \<Rightarrow> string \<Rightarrow> int \<Rightarrow> error + (string option \<times> string option)"
  pullsGetDiff :: "effect list \<Rightarrow> string \<Rightarrow> string \<Rightarrow> int \<Rightarrow> error + string option"
  compareCommits :: "effect list \<Rightarrow> string \<Rightarrow> string \<Rightarrow> json option \<Rightarrow> json option \<Rightarrow> error + string"
  getContent :: "effect list \<Rightarrow> string \<Rightarrow> string \<Rightarrow> string option \<Rightarrow> string \<Rightarrow> error + string option"
  chatCompletionsCreate :: "effect list \<Rightarrow> ChatRequest \<Rightarrow> error + string option list"
  createReview :: "effect list \<Rightarrow> string \<Rightarrow> string \<Rightarrow> int \<Rightarrow> ReviewComment list \<Rightarrow> error option"
  parseDiff :: "string \<Rightarrow> File list"
  minimatch :: "string \<Rightarrow> string \<Rightarrow> bool"
  JSON_parse :: "string \<Rightarrow> json option"
  Number :: "json option \<Rightarrow> error + int option"

text \<open>The constants read from the configuration when the module is loaded.\<close>

definition GITHUB_TOKEN :: "Env \<Rightarrow> string" where
  "GITHUB_TOKEN env = getInput env ''GITHUB_TOKEN''"

definition OPENAI_API_KEY :: "Env \<Rightarrow> string" where
  "OPENAI_API_KEY env = getInput env ''OPENAI_API_KEY''"

definition OPENAI_API_MODEL :: "Env \<Rightarrow> string" where
  "OPENAI_API_MODEL env = getInput env ''OPENAI_API_MODEL''"

section \<open>The program\<close>

text \<open>
  Each function that talks to the outside takes the record of effects so far and returns
  it extended. A function that can throw returns a sum, \<open>Inl\<close> for the exception.
\<close>

definition getPRDetails :: "Env \<Rightarrow> effect list \<Rightarrow> (error + PRDetails) \<times> effect list" where
  "getPRDetails env tr =
     (case eventPayload env of
        Inl e \<Rightarrow> (Inl e, tr)
      | Inr event \<Rightarrow>
          (let login = repository_owner_login event;
               name = repository_name event;
               tr1 = tr @ [PullsGet login name (number event)]
           in case pullsGet env tr login name (number event) of
                Inl e \<Rightarrow> (Inl e, tr1)
              | Inr (prTitle, prBody) \<Rightarrow>
                  (Inr \<lparr> owner = login,
                         repo = name,
                         pull_number = number event,
                         title = (case prTitle of None \<Rightarrow> [] | Some t \<Rightarrow> t),
                         description = (case prBody of None \<Rightarrow> [] | Some b \<Rightarrow> b) \<rparr>,
                   tr1)))"

definition getDiff ::
  "Env \<Rightarrow> effect list \<Rightarrow> string \<Rightarrow> string \<Rightarrow> int \<Rightarrow> (error + string option) \<times> effect list" where
  "getDiff env tr owner' repo' pull_number' =
     (pullsGetDiff env tr owner' repo' pull_number',
      tr @ [PullsGetDiff owner' repo' pull_number'])"

text \<open>\<^verbatim>\<open>getFileContent\<close> catches what the request throws, logs it and returns \<^verbatim>\<open>null\<close>.\<close>

definition getFileContent ::
  "Env \<Rightarrow> effect list \<Rightarrow> string \<Rightarrow> string \<Rightarrow> string option \<Rightarrow> string \<Rightarrow> string option \<times> effect list" where
  "getFileContent env tr owner' repo' path' ref =
     (let tr1 = tr @ [GetContent owner' repo' path' ref]
      in case getContent env tr owner' repo' path' ref of
           Inl e \<Rightarrow> (None, tr1 @ [ConsoleError e])
         | Inr fileText \<Rightarrow> (fileText, tr1))"

text \<open>
  \<^verbatim>\<open>getAIResponse\<close>. Inside the \<^verbatim>\<open>try\<close>: the request, the read of
  \<^verbatim>\<open>choices[0].message\<close> (a TypeError when there is no choice), \<^verbatim>\<open>JSON.parse\<close>,
  and the read of \<^verbatim>\<open>.reviews\<close> (a TypeError when the text parsed to \<^verbatim>\<open>null\<close>).
  Whatever is thrown there is logged and \<^verbatim>\<open>null\<close> is returned. The value returned
  otherwise is whatever stands under \<^verbatim>\<open>reviews\<close>; \<open>None\<close> is \<^verbatim>\<open>null\<close> or
  \<^verbatim>\<open>undefined\<close>.
\<close>

definition getAIResponse :: "Env \<Rightarrow> effect list \<Rightarrow> string \<Rightarrow> json option \<times> effect list" where
  "getAIResponse env tr prompt =
     (let request = chatRequest prompt;
          tr1 = tr @ [ChatCompletionsCreate request]
      in case chatCompletionsCreate env tr request of
           Inl e \<Rightarrow> (None, tr1 @ [ConsoleError e])
         | Inr [] \<Rightarrow> (None, tr1 @ [ConsoleError TypeError])
         | Inr (choice # others) \<Rightarrow>
             (let res = (case choice of
                           None \<Rightarrow> ''{}''
                         | Some text \<Rightarrow> if trim text = [] then ''{}'' else trim text)
              in case JSON_parse env res of
                   None \<Rightarrow> (None, tr1 @ [ConsoleError SyntaxError])
                 | Some parsed \<Rightarrow>
                     (case readProperty parsed ''reviews'' of
                        Inl e \<Rightarrow> (None, tr1 @ [ConsoleError e])
                      | Inr reviews \<Rightarrow> (reviews, tr1))))"

text \<open>
  \<^verbatim>\<open>xs.flatMap(f)\<close> for a callback that returns an array or a single object (taken
  as the array of that object): the results in order, and the first exception the
  callback throws ends it.
\<close>

fun flatMap :: "('a \<Rightarrow> error + 'b list) \<Rightarrow> 'a list \<Rightarrow> error + 'b list" where
  "flatMap f [] = Inr []"
| "flatMap f (x # xs) =
     (case f x of
        Inl e \<Rightarrow> Inl e
      | Inr ys \<Rightarrow> (case flatMap f xs of Inl e \<Rightarrow> Inl e | Inr zs \<Rightarrow> Inr (ys @ zs)))"

text \<open>
  \<^verbatim>\<open>createComment\<close>. Its parameter is declared an array of objects with two string
  properties, but the value it is called with comes unchecked from \<^verbatim>\<open>JSON.parse\<close>:
  \<^verbatim>\<open>aiResponses.flatMap\<close> throws when the value is no array,
  \<^verbatim>\<open>aiResponse.lineNumber\<close> throws when an entry is \<^verbatim>\<open>null\<close>, and
  \<^verbatim>\<open>Number(aiResponse.lineNumber)\<close> throws when the line number has no primitive
  value. \<open>commentFor\<close> is the callback given to \<^verbatim>\<open>flatMap\<close>.
\<close>

definition commentFor :: "Env \<Rightarrow> File \<Rightarrow> Chunk \<Rightarrow> json \<Rightarrow> error + ReviewComment list" where
  "commentFor env file chunk aiResponse =
     (case to file of
        None \<Rightarrow> Inr []
      | Some fileTo \<Rightarrow>
          if fileTo = [] then Inr []
          else (case readProperty aiResponse ''lineNumber'' of
                  Inl e \<Rightarrow> Inl e
                | Inr entryLine \<Rightarrow>
                    (case Number env entryLine of
                       Inl e \<Rightarrow> Inl e
                     | Inr None \<Rightarrow> Inr []
                     | Inr (Some lineNumber) \<Rightarrow>
                         if lineNumber \<notin> validLines chunk then Inr []
                         else (case readProperty aiResponse ''reviewComment'' of
                                 Inl e \<Rightarrow> Inl e
                               | Inr reviewComment \<Rightarrow>
                                   Inr [\<lparr> body = reviewComment, path = fileTo,
                                          line = lineNumber \<rparr>]))))"

definition createComment :: "Env \<Rightarrow> File \<Rightarrow> Chunk \<Rightarrow> json \<Rightarrow> error + ReviewComment list" where
  "createComment env file chunk aiResponses =
     (case aiResponses of
        JArr entries \<Rightarrow> flatMap (commentFor env file chunk) entries
      | _ \<Rightarrow> Inl TypeError)"

definition createReviewComment ::
  "Env \<Rightarrow> effect list \<Rightarrow> string \<Rightarrow> string \<Rightarrow> int \<Rightarrow> ReviewComment list \<Rightarrow> error option \<times> effect list" where
  "createReviewComment env tr owner' repo' pull_number' comments =
     (createReview env tr owner' repo' pull_number' comments,
      tr @ [CreateReview owner' repo' pull_number' comments])"

text \<open>
  \<^verbatim>\<open>analyzeCode\<close>: the loop over the chunks of a file, inside the loop over the
  files. \<open>comments\<close> is the accumulator both loops push to. Nothing here catches what
  \<^verbatim>\<open>createComment\<close> throws.
\<close>

fun analyzeChunks ::
  "Env \<Rightarrow> PRDetails \<Rightarrow> File \<Rightarrow> string option \<Rightarrow> Chunk list \<Rightarrow> ReviewComment list \<Rightarrow> effect list
   \<Rightarrow> (error + ReviewComment list) \<times> effect list" where
  "analyzeChunks env prDetails file fullFileContent [] comments tr = (Inr comments, tr)"
| "analyzeChunks env prDetails file fullFileContent (chunk # rest) comments tr =
     (case getAIResponse env tr (createPrompt file chunk prDetails fullFileContent) of
        (aiResponse, tr1) \<Rightarrow>
          (case aiResponse of
             None \<Rightarrow> analyzeChunks env prDetails file fullFileContent rest comments tr1
           | Some reviews \<Rightarrow>
               if truthy (Some reviews) then
                 (case createComment env file chunk reviews of
                    Inl e \<Rightarrow> (Inl e, tr1)
                  | Inr newComments \<Rightarrow>
                      analyzeChunks env prDetails file fullFileContent rest
                        (comments @ newComments) tr1)
               else analyzeChunks env prDetails file fullFileContent rest comments tr1))"

fun analyzeFiles ::
  "Env \<Rightarrow> PRDetails \<Rightarrow> File list \<Rightarrow> ReviewComment list \<Rightarrow> effect list
   \<Rightarrow> (error + ReviewComment list) \<times> effect list" where
  "analyzeFiles env prDetails [] comments tr = (Inr comments, tr)"
| "analyzeFiles env prDetails (file # rest) comments tr =
     (if to file = Some ''/dev/null'' then analyzeFiles env prDetails rest comments tr
      else
        (case getFileContent env tr (owner prDetails) (repo prDetails) (to file)
                (''pull/'' @ showInt (pull_number prDetails) @ ''/head'') of
           (fullFileContent, tr1) \<Rightarrow>
             (case analyzeChunks env prDetails file
                     (if fullFileContent = Some [] then None else fullFileContent)
                     (chunks file) comments tr1 of
                (Inl e, tr2) \<Rightarrow> (Inl e, tr2)
              | (Inr comments', tr2) \<Rightarrow> analyzeFiles env prDetails rest comments' tr2)))"

definition analyzeCode ::
  "Env \<Rightarrow> effect list \<Rightarrow> File list \<Rightarrow> PRDetails \<Rightarrow> (error + ReviewComment list) \<times> effect list" where
  "analyzeCode env tr parsedDiff prDetails = analyzeFiles env prDetails parsedDiff [] tr"

text \<open>
  \<^verbatim>\<open>main\<close>, with the handler \<^verbatim>\<open>main().catch\<close> that logs the error and exits
  with status 1. \<open>excludePatterns\<close> and \<open>filteredDiff\<close> are the two constants of that
  name in \<^verbatim>\<open>main\<close>. The log line of an unsupported event also prints the
  environment variable \<^verbatim>\<open>GITHUB_EVENT_NAME\<close>, which the record leaves out.
\<close>

datatype outcome = Success | Failure error

definition excludePatterns :: "Env \<Rightarrow> string list" where
  "excludePatterns env = map trim (splitOn CHR '','' (getInput env ''exclude''))"

definition filteredDiff :: "Env \<Rightarrow> string list \<Rightarrow> File list \<Rightarrow> File list" where
  "filteredDiff env patterns parsedDiff =
     filter (\<lambda>file. \<not> list_ex (\<lambda>pattern.
                minimatch env (case to file of None \<Rightarrow> [] | Some fileTo \<Rightarrow> fileTo) pattern)
              patterns)
       parsedDiff"

definition fetchDiff ::
  "Env \<Rightarrow> effect list \<Rightarrow> PRDetails \<Rightarrow> Event \<Rightarrow> (outcome + string option) \<times> effect list" where
  "fetchDiff env tr prDetails eventData =
     (if action eventData = Some (JStr ''opened'') then
        (case getDiff env tr (owner prDetails) (repo prDetails) (pull_number prDetails) of
           (Inl e, tr1) \<Rightarrow> (Inl (Failure e), tr1 @ [ConsoleError e])
         | (Inr diff, tr1) \<Rightarrow> (Inr diff, tr1))
      else if action eventData = Some (JStr ''synchronize'') then
        (let tr1 = tr @ [CompareCommits (owner prDetails) (repo prDetails)
                           (before eventData) (after eventData)]
         in case compareCommits env tr (owner prDetails) (repo prDetails)
                   (before eventData) (after eventData) of
              Inl e \<Rightarrow> (Inl (Failure e), tr1 @ [ConsoleError e])
            | Inr responseData \<Rightarrow> (Inr (Some responseData), tr1))
      else (Inl Success, tr @ [ConsoleLog ''Unsupported event:'']))"

definition main :: "Env \<Rightarrow> outcome \<times> effect list" where
  "main env =
     (case getPRDetails env [] of
        (Inl e, tr) \<Rightarrow> (Failure e, tr @ [ConsoleError e])
      | (Inr prDetails, tr) \<Rightarrow>
          (case eventPayload env of
             Inl e \<Rightarrow> (Failure e, tr @ [ConsoleError e])
           | Inr eventData \<Rightarrow>
               (case fetchDiff env tr prDetails eventData of
                  (Inl stopped, tr1) \<Rightarrow> (stopped, tr1)
                | (Inr None, tr1) \<Rightarrow> (Success, tr1 @ [ConsoleLog ''No diff found''])
                | (Inr (Some diff), tr1) \<Rightarrow>
                    if diff = [] then (Success, tr1 @ [ConsoleLog ''No diff found''])
                    else
                      (let parsedDiff = parseDiff env diff;
                           tr2 = tr1 @ [ParseDiff diff]
                       in case analyzeCode env tr2
                                 (filteredDiff env (excludePatterns env) parsedDiff)
                                 prDetails of
                            (Inl e, tr3) \<Rightarrow> (Failure e, tr3 @ [ConsoleError e])
                          | (Inr comments, tr3) \<Rightarrow>
                              if comments \<noteq> [] then
                                (case createReviewComment env tr3 (owner prDetails)
                                        (repo prDetails) (pull_number prDetails) comments of
                                   (Some e, tr4) \<Rightarrow> (Failure e, tr4 @ [ConsoleError e])
                                 | (None, tr4) \<Rightarrow> (Success, tr4))
                              else (Success, tr3)))))"

section \<open>A property of the record of effects\<close>

text \<open>
  A request carries the model identifier and the sampling configuration that
  \<^verbatim>\<open>queryConfig\<close> spells out, and every request to the model provider in a record
  of effects does.
\<close>

definition samplingFixed :: "ChatRequest \<Rightarrow> bool" where
  "samplingFixed request =
     (model request = ''gpt-4o-2024-11-20'' \<and> temperature request = 1 / 10
      \<and> max_tokens request = 1000 \<and> top_p request = 1
      \<and> frequency_penalty request = 1 / 10 \<and> presence_penalty request = 1 / 10
      \<and> response_format request = ''json_object'')"

definition requestsFixed :: "effect list \<Rightarrow> bool" where
  "requestsFixed tr =
     list_all (\<lambda>performed. case performed of
                  ChatCompletionsCreate request \<Rightarrow> samplingFixed request
                | _ \<Rightarrow> True) tr"

section \<open>Concrete inputs\<close>

text \<open>
  The theorems below hold for every \<open>Env\<close>: for every conversion \<open>Number\<close>, every
  \<open>minimatch\<close>, every \<open>JSON_parse\<close>, every answer of the host and of the model.
  The definitions of this section are the inputs at which they are run.

  \<open>decimalNumber\<close> is \<^verbatim>\<open>Number\<close> on the values used here. It throws where the
  conversion to a primitive does: at an object that has a key \<^verbatim>\<open>toString\<close> of its
  own (a parsed value is never callable), and at an array with such an element, since
  the array is joined to a string. Otherwise \<^verbatim>\<open>undefined\<close> is no number,
  \<^verbatim>\<open>null\<close> is 0, a boolean is 0 or 1, a number is itself, an object is no number, an
  array is what its joined string is, and a string is its value when it is empty or a run
  of decimal digits once trimmed; every other string is taken as no number. \<open>globMatch\<close> is
  \<^verbatim>\<open>minimatch\<close> on the patterns used here: literal characters and \<^verbatim>\<open>*\<close>, which
  stands for any run of characters other than the slash; the empty pattern matches the
  empty path only. \<open>readReply\<close> is \<^verbatim>\<open>JSON.parse\<close> on the three texts used here.
\<close>

fun decimalValue :: "nat \<Rightarrow> string \<Rightarrow> nat option" where
  "decimalValue acc [] = Some acc"
| "decimalValue acc (c # cs) =
     (if c \<in> set ''0123456789'' then decimalValue (10 * acc + (of_char c - 48)) cs else None)"

fun noPrimitiveValue :: "json \<Rightarrow> bool" where
  "noPrimitiveValue (JObj kvs) = (''toString'' \<in> set (map fst kvs))"
| "noPrimitiveValue (JArr xs) = list_ex noPrimitiveValue xs"
| "noPrimitiveValue v = False"

fun numericValue :: "json \<Rightarrow> int option" where
  "numericValue JNull = Some 0"
| "numericValue (JBool b) = Some (if b then 1 else 0)"
| "numericValue (JNum r) = (if of_int \<lfloor>r\<rfloor> = r then Some \<lfloor>r\<rfloor> else None)"
| "numericValue (JStr s) = map_option int (decimalValue 0 (trim s))"
| "numericValue (JArr []) = Some 0"
| "numericValue (JArr [x]) = (case x of JBool b \<Rightarrow> None | _ \<Rightarrow> numericValue x)"
| "numericValue (JArr (x # y # zs)) = None"
| "numericValue (JObj kvs) = None"

definition decimalNumber :: "json option \<Rightarrow> error + int option" where
  "decimalNumber v =
     (case v of
        None \<Rightarrow> Inr None
      | Some parsed \<Rightarrow>
          if noPrimitiveValue parsed then Inl TypeError else Inr (numericValue parsed))"

fun globMatch :: "string \<Rightarrow> string \<Rightarrow> bool" where
  "globMatch [] [] = True"
| "globMatch (c # cs) [] = False"
| "globMatch [] (p # ps) = (p = CHR ''*'' \<and> globMatch [] ps)"
| "globMatch (c # cs) (p # ps) =
     (if p = CHR ''*'' then globMatch (c # cs) ps \<or> (c \<noteq> CHR ''/'' \<and> globMatch cs (p # ps))
      else c = p \<and> globMatch cs ps)"

definition quoted :: "string \<Rightarrow> string" where
  "quoted s = quote @ s @ quote"

definition entryText :: string where
  "entryText =
     ''{'' @ quoted ''lineNumber'' @ '': '' @ quoted ''10'' @ '', '' @ quoted ''reviewComment''
     @ '': '' @ quoted ''Division by zero'' @ ''}''"

definition entryValue :: json where
  "entryValue = JObj [(''lineNumber'', JStr ''10''), (''reviewComment'', JStr ''Division by zero'')]"

text \<open>A reply of the expected shape, and one whose \<^verbatim>\<open>reviews\<close> is a single object.\<close>

definition arrayReply :: string where
  "arrayReply = ''{'' @ quoted ''reviews'' @ '': ['' @ entryText @ '']}''"

definition objectReply :: string where
  "objectReply = ''{'' @ quoted ''reviews'' @ '': '' @ entryText @ ''}''"

definition readReply :: "string \<Rightarrow> json option" where
  "readReply text =
     (if text = ''{}'' then Some (JObj [])
      else if text = arrayReply then Some (JObj [(''reviews'', JArr [entryValue])])
      else if text = objectReply then Some (JObj [(''reviews'', entryValue)])
      else None)"

text \<open>A hunk that adds line 10 of b.txt between two context lines.\<close>

definition addedLine :: Change where
  "addedLine =
     \<lparr> normal = False, add = True, del = False, ln = Some 10, ln1 = None, ln2 = None,
       Change.content = ''+return a / b;'' \<rparr>"

definition additionChunk :: Chunk where
  "additionChunk =
     \<lparr> Chunk.content = ''@@ -9,2 +9,3 @@'',
       changes =
         [\<lparr> normal = True, add = False, del = False, ln = None, ln1 = Some 9, ln2 = Some 9,
            Change.content = '' if (b == 0) log();'' \<rparr>,
          addedLine,
          \<lparr> normal = True, add = False, del = False, ln = None, ln1 = Some 10, ln2 = Some 11,
            Change.content = '' }'' \<rparr>] \<rparr>"

definition textFile :: File where
  "textFile = \<lparr> to = Some ''b.txt'', chunks = [additionChunk] \<rparr>"

text \<open>The same hunk in a file that the diff deletes, and a file without a destination path.\<close>

definition deletedFile :: File where
  "deletedFile = \<lparr> to = Some ''/dev/null'', chunks = [additionChunk] \<rparr>"

definition unnamedFile :: File where
  "unnamedFile = \<lparr> to = None, chunks = [additionChunk] \<rparr>"

text \<open>
  Answers of a model: the entry for line 10, an entry for a line that is not in the diff,
  an entry whose line number is no number, and an entry whose line number is an object
  that cannot be converted.
\<close>

definition unconvertibleEntry :: json where
  "unconvertibleEntry =
     JObj [(''lineNumber'', JObj [(''toString'', JNull)]), (''reviewComment'', JStr ''Broken'')]"

definition absentLineEntry :: json where
  "absentLineEntry = JObj [(''lineNumber'', JStr ''9999''), (''reviewComment'', JStr ''Unused'')]"

definition wordLineEntry :: json where
  "wordLineEntry = JObj [(''lineNumber'', JStr ''ten''), (''reviewComment'', JStr ''Unclear'')]"

definition divisionComment :: ReviewComment where
  "divisionComment = \<lparr> body = Some (JStr ''Division by zero''), path = ''b.txt'', line = 10 \<rparr>"

text \<open>
  A hunk that deletes old line 2 between two context lines: the context line after the
  deletion is old line 3 and new line 2.
\<close>

definition contextAfterDeletion :: Change where
  "contextAfterDeletion =
     \<lparr> normal = True, add = False, del = False, ln = None, ln1 = Some 3, ln2 = Some 2,
       Change.content = '' return x;'' \<rparr>"

definition deletionChunk :: Chunk where
  "deletionChunk =
     \<lparr> Chunk.content = ''@@ -1,3 +1,2 @@'',
       changes =
         [\<lparr> normal = True, add = False, del = False, ln = None, ln1 = Some 1, ln2 = Some 1,
            Change.content = '' x = compute();'' \<rparr>,
          \<lparr> normal = False, add = False, del = True, ln = Some 2, ln1 = None, ln2 = None,
            Change.content = ''-check(x);'' \<rparr>,
          contextAfterDeletion] \<rparr>"

text \<open>
  A run on an opened pull request whose diff is the hunk of b.txt, with a model that
  answers \<open>arrayReply\<close>, a configured model identifier gpt-4 and no exclusion.
\<close>

definition openedEvent :: Event where
  "openedEvent =
     \<lparr> action = Some (JStr ''opened''), before = None, after = None,
       repository_owner_login = ''octo'', repository_name = ''demo'', number = 7 \<rparr>"

definition openedEnv :: Env where
  "openedEnv =
     \<lparr> getInput = (\<lambda>name. if name = ''OPENAI_API_MODEL'' then ''gpt-4'' else []),
       eventPayload = Inr openedEvent,
       pullsGet = (\<lambda>tr owner' repo' n. Inr (Some ''Add division'', None)),
       pullsGetDiff = (\<lambda>tr owner' repo' n. Inr (Some ''diff --git a/b.txt b/b.txt'')),
       compareCommits = (\<lambda>tr owner' repo' base head. Inr ''diff --git a/b.txt b/b.txt''),
       getContent = (\<lambda>tr owner' repo' path' ref. Inr None),
       chatCompletionsCreate = (\<lambda>tr request. Inr [Some arrayReply]),
       createReview = (\<lambda>tr owner' repo' n comments. None),
       parseDiff = (\<lambda>diff. [textFile]),
       minimatch = globMatch,
       JSON_parse = readReply,
       Number = decimalNumber \<rparr>"

definition openedDetails :: PRDetails where
  "openedDetails =
     \<lparr> owner = ''octo'', repo = ''demo'', pull_number = 7, title = ''Add division'',
       description = [] \<rparr>"



text \<open>The same run with a model that answers \<open>objectReply\<close>.\<close>

definition objectReplyEnv :: Env where
  "objectReplyEnv = openedEnv \<lparr> chatCompletionsCreate := (\<lambda>tr request. Inr [Some objectReply]) \<rparr>"

text \<open>A run on a closed pull request, and the same when the host rejects the first request.\<close>

definition closedEvent :: Event where
  "closedEvent = openedEvent \<lparr> action := Some (JStr ''closed'') \<rparr>"

definition closedEnv :: Env where
  "closedEnv = openedEnv \<lparr> eventPayload := Inr closedEvent \<rparr>"

definition closedRejectedEnv :: Env where
  "closedRejectedEnv =
     closedEnv \<lparr> pullsGet := (\<lambda>tr owner' repo' n. Inl (RequestError ''Not Found'')) \<rparr>"

section \<open>Line numbers\<close>

lemma set_insertionOrder: "set (insertionOrder seen xs) = set seen \<union> set xs"
  by (induction xs arbitrary: seen) auto

lemma distinct_insertionOrder: "distinct seen \<Longrightarrow> distinct (insertionOrder seen xs)"
  by (induction xs arbitrary: seen) auto

lemma changedLineNumbers_iff:
  "n \<in> set (changedLineNumbers chunk) \<longleftrightarrow>
     (\<exists>c \<in> set (changes chunk). isAddOrDel c \<and> getLineNumber c = Some n)"
proof
  assume "n \<in> set (changedLineNumbers chunk)"
  then obtain c where "c \<in> set (changes chunk)" "isAddOrDel c" "getLineNumber c \<noteq> None"
    "n = the (getLineNumber c)"
    by (auto simp: changedLineNumbers_def)
  then show "\<exists>c \<in> set (changes chunk). isAddOrDel c \<and> getLineNumber c = Some n"
    by auto
next
  assume "\<exists>c \<in> set (changes chunk). isAddOrDel c \<and> getLineNumber c = Some n"
  then obtain c where c: "c \<in> set (changes chunk)" "isAddOrDel c" "getLineNumber c = Some n"
    by blast
  then have "Some n \<in> {x \<in> getLineNumber ` {c \<in> set (changes chunk). isAddOrDel c}. x \<noteq> None}"
    by force
  then have "the (Some n) \<in> the ` {x \<in> getLineNumber ` {c \<in> set (changes chunk). isAddOrDel c}. x \<noteq> None}"
    by (rule imageI)
  then show "n \<in> set (changedLineNumbers chunk)"
    by (simp add: changedLineNumbers_def)
qed

lemma wellFormed_context: "wellFormedChange c \<Longrightarrow> isAddOrDel c \<longleftrightarrow> \<not> normal c"
  by (auto simp: wellFormedChange_def isAddOrDel_def split: if_splits)

lemma filter_isAddOrDel_wellFormed:
  "\<forall>c \<in> set cs. wellFormedChange c \<Longrightarrow>
   filter (\<lambda>c. \<not> normal c \<and> isAddOrDel c) cs = filter isAddOrDel cs"
  by (rule filter_cong [OF refl]) (use wellFormed_context in blast)

text \<open>The prompt lists each changed line number once.\<close>

lemma distinct_changedLines: "distinct (changedLines chunk)"
  by (simp add: changedLines_def distinct_insertionOrder)

text \<open>
  C4. For a change as parse-diff produces it, \<open>getLineNumber\<close> returns the new-file
  line number \<open>ln2\<close> of a context line, the line number \<open>ln\<close> of an added line (its
  new-file number) and the line number \<open>ln\<close> of a deleted line (its old-file number);
  for an added or deleted line the result is defined and not negative, and the
  \<^verbatim>\<open>undefined\<close> of the last branch is never returned.
\<close>

theorem getLineNumber_resolves:
  assumes "wellFormedChange c"
  shows "(normal c \<longrightarrow> getLineNumber c = ln2 c)
       \<and> (add c \<longrightarrow> getLineNumber c = ln c)
       \<and> (del c \<longrightarrow> getLineNumber c = ln c)
       \<and> (isAddOrDel c \<longrightarrow> (\<exists>n. getLineNumber c = Some n \<and> 0 \<le> n))
       \<and> getLineNumber c \<noteq> None"
  using assms
  by (auto simp: wellFormedChange_def getLineNumber_def isAddOrDel_def lineNumberDefined_def
           split: if_splits option.splits)

text \<open>C4 at the added line 10 of the example hunk and at the context line after a deletion.\<close>

theorem getLineNumber_resolves_witness:
  "wellFormedChange addedLine \<and> add addedLine \<and> getLineNumber addedLine = Some 10
   \<and> wellFormedChange contextAfterDeletion \<and> normal contextAfterDeletion
   \<and> getLineNumber contextAfterDeletion = Some 2"
proof -
  have wfAdded: "wellFormedChange addedLine"
    by (simp add: wellFormedChange_def addedLine_def lineNumberDefined_def)
  have wfContext: "wellFormedChange contextAfterDeletion"
    by (simp add: wellFormedChange_def contextAfterDeletion_def lineNumberDefined_def)
  have "add addedLine" "ln addedLine = Some 10"
    by (simp_all add: addedLine_def)
  moreover have "normal contextAfterDeletion" "ln2 contextAfterDeletion = Some 2"
    by (simp_all add: contextAfterDeletion_def)
  ultimately show ?thesis
    using getLineNumber_resolves [OF wfAdded] getLineNumber_resolves [OF wfContext]
      wfAdded wfContext
    by simp
qed

text \<open>
  C5, as stated, fails: in a hunk that deletes old line 2 and goes on with a context line,
  that context line is new line 2, so the number \<open>getLineNumber\<close> derives from a
  context change is in the set of eligible lines.
\<close>

theorem validLines_context_number:
  "contextAfterDeletion \<in> set (changes deletionChunk)
   \<and> list_all wellFormedChange (changes deletionChunk)
   \<and> normal contextAfterDeletion \<and> \<not> isAddOrDel contextAfterDeletion
   \<and> getLineNumber contextAfterDeletion = Some 2
   \<and> 2 \<in> validLines deletionChunk
   \<and> changedLines deletionChunk = [2]"
  by (simp add: deletionChunk_def contextAfterDeletion_def wellFormedChange_def
      lineNumberDefined_def isAddOrDel_def getLineNumber_def validLines_def changedLines_def
      changedLineNumbers_def)

text \<open>
  C5, amended. The set of eligible lines of a chunk, which is both what the prompt lists
  (\<open>changedLines\<close>) and what comments are checked against (\<open>validLines\<close>), holds
  exactly the line numbers \<open>getLineNumber\<close> gives for the added and deleted changes of
  the chunk. Context changes add nothing to it: for a chunk as parse-diff produces it,
  leaving the context changes out gives the same set. (A number in the set may still be
  equal to the new-file number of a context line.)
\<close>

theorem validLines_exact:
  "validLines chunk = {n. \<exists>c \<in> set (changes chunk). isAddOrDel c \<and> getLineNumber c = Some n}
   \<and> set (changedLines chunk) = validLines chunk
   \<and> ((\<forall>c \<in> set (changes chunk). wellFormedChange c) \<longrightarrow>
        validLines (chunk \<lparr> changes := filter (\<lambda>c. \<not> normal c) (changes chunk) \<rparr>) = validLines chunk)"
proof (intro conjI impI)
  show "validLines chunk = {n. \<exists>c \<in> set (changes chunk). isAddOrDel c \<and> getLineNumber c = Some n}"
    unfolding validLines_def using changedLineNumbers_iff [of _ chunk] by blast
  show "set (changedLines chunk) = validLines chunk"
    by (simp add: changedLines_def validLines_def set_insertionOrder)
  assume "\<forall>c \<in> set (changes chunk). wellFormedChange c"
  then show "validLines (chunk \<lparr> changes := filter (\<lambda>c. \<not> normal c) (changes chunk) \<rparr>) = validLines chunk"
    by (simp add: validLines_def changedLineNumbers_def filter_isAddOrDel_wellFormed)
qed

text \<open>C5, amended, at the example hunk: line 10 is the one eligible line, with or without the context lines.\<close>

theorem validLines_exact_witness:
  "list_all wellFormedChange (changes additionChunk)
   \<and> set (changedLines additionChunk) = {10}
   \<and> validLines additionChunk = {10}
   \<and> validLines (additionChunk \<lparr> changes := filter (\<lambda>c. \<not> normal c) (changes additionChunk) \<rparr>) = {10}"
proof -
  have wf: "list_all wellFormedChange (changes additionChunk)"
    by (simp add: additionChunk_def addedLine_def wellFormedChange_def lineNumberDefined_def)
  have lines: "validLines additionChunk = {10}"
    by (simp add: additionChunk_def addedLine_def validLines_def changedLineNumbers_def
        isAddOrDel_def getLineNumber_def)
  from wf have "\<forall>c \<in> set (changes additionChunk). wellFormedChange c"
    by (simp add: list_all_iff)
  with validLines_exact [of additionChunk] wf lines show ?thesis
    by simp
qed

section \<open>Comments\<close>

lemma commentFor_line:
  "commentFor env file chunk entry = Inr cs \<Longrightarrow> c \<in> set cs \<Longrightarrow> line c \<in> validLines chunk"
  by (auto simp: commentFor_def split: option.splits if_splits sum.splits)

lemma commentFor_path:
  "commentFor env file chunk entry = Inr cs \<Longrightarrow> c \<in> set cs \<Longrightarrow> to file = Some (path c)"
  by (auto simp: commentFor_def split: option.splits if_splits sum.splits)

text \<open>
  An entry can be converted when it is not \<^verbatim>\<open>null\<close> and \<^verbatim>\<open>Number\<close> does not throw
  at its line number; that is so for every entry whose line number is a string, as the
  parameter of \<^verbatim>\<open>createComment\<close> is declared.
\<close>

lemma commentFor_total:
  "entry \<noteq> JNull \<Longrightarrow>
   \<forall>l. readProperty entry ''lineNumber'' = Inr l \<longrightarrow> (\<exists>n. Number env l = Inr n) \<Longrightarrow>
   \<exists>cs. commentFor env file chunk entry = Inr cs"
  by (cases entry) (auto simp: commentFor_def split: option.splits sum.splits)

lemma commentFor_invalid:
  "commentFor env file chunk entry = Inr cs \<Longrightarrow>
   \<forall>l n. readProperty entry ''lineNumber'' = Inr l \<longrightarrow> Number env l = Inr (Some n) \<longrightarrow>
     n \<notin> validLines chunk \<Longrightarrow>
   cs = []"
  by (auto simp: commentFor_def split: option.splits if_splits sum.splits)

lemma commentFor_throws:
  "to file = Some fileTo \<Longrightarrow> fileTo \<noteq> [] \<Longrightarrow> readProperty entry ''lineNumber'' = Inr l \<Longrightarrow>
   Number env l = Inl e \<Longrightarrow> commentFor env file chunk entry = Inl e"
  by (simp add: commentFor_def)

lemma flatMap_append:
  "flatMap f (xs @ ys) =
     (case flatMap f xs of
        Inl e \<Rightarrow> Inl e
      | Inr cs \<Rightarrow> (case flatMap f ys of Inl e \<Rightarrow> Inl e | Inr ds \<Rightarrow> Inr (cs @ ds)))"
  by (induction xs) (auto split: sum.splits)

lemma flatMap_Inr:
  "flatMap f xs = Inr cs \<Longrightarrow> c \<in> set cs \<Longrightarrow> \<exists>x \<in> set xs. \<exists>ys. f x = Inr ys \<and> c \<in> set ys"
  by (induction xs arbitrary: cs) (auto split: sum.splits)

lemma flatMap_total: "\<forall>x \<in> set xs. \<exists>ys. f x = Inr ys \<Longrightarrow> \<exists>cs. flatMap f xs = Inr cs"
  by (induction xs) (auto split: sum.splits)

lemma flatMap_empty:
  "flatMap f xs = Inr cs \<Longrightarrow> \<forall>x \<in> set xs. \<forall>ys. f x = Inr ys \<longrightarrow> ys = [] \<Longrightarrow> cs = []"
  by (induction xs arbitrary: cs) (auto split: sum.splits)

lemma createComment_JArr:
  "createComment env file chunk (JArr entries) = flatMap (commentFor env file chunk) entries"
  by (simp add: createComment_def)

lemma createComment_path:
  "createComment env file chunk aiResponses = Inr cs \<Longrightarrow> c \<in> set cs \<Longrightarrow> to file = Some (path c)"
  by (cases aiResponses) (auto simp: createComment_def dest!: flatMap_Inr dest: commentFor_path)

text \<open>
  C1. For every file, every chunk and every list of entries the model returned, whatever
  the entries hold and whatever \<^verbatim>\<open>Number\<close> makes of their line numbers: every
  comment \<open>createComment\<close> returns has its line in \<open>validLines\<close> of the chunk, and
  when no entry's converted line number is in that set, it returns no comment. It
  returns a list, and throws nothing, when no entry is \<^verbatim>\<open>null\<close> and
  \<^verbatim>\<open>Number\<close> throws at no entry's line number (so for every list of the declared
  type, whose line numbers are strings).
\<close>

theorem createComment_lines_valid:
  "((\<forall>entry \<in> set entries. entry \<noteq> JNull
        \<and> (\<forall>l. readProperty entry ''lineNumber'' = Inr l \<longrightarrow> (\<exists>n. Number env l = Inr n)))
      \<longrightarrow> (\<exists>comments. createComment env file chunk (JArr entries) = Inr comments))
   \<and> (\<forall>comments. createComment env file chunk (JArr entries) = Inr comments \<longrightarrow>
        (\<forall>c \<in> set comments. line c \<in> validLines chunk)
        \<and> ((\<forall>entry \<in> set entries. \<forall>l n. readProperty entry ''lineNumber'' = Inr l \<longrightarrow>
               Number env l = Inr (Some n) \<longrightarrow> n \<notin> validLines chunk) \<longrightarrow> comments = []))"
proof (intro conjI impI allI)
  assume convertible: "\<forall>entry \<in> set entries. entry \<noteq> JNull
        \<and> (\<forall>l. readProperty entry ''lineNumber'' = Inr l \<longrightarrow> (\<exists>n. Number env l = Inr n))"
  have "\<forall>entry \<in> set entries. \<exists>cs. commentFor env file chunk entry = Inr cs"
  proof
    fix entry
    assume "entry \<in> set entries"
    with convertible have "entry \<noteq> JNull"
      and "\<forall>l. readProperty entry ''lineNumber'' = Inr l \<longrightarrow> (\<exists>n. Number env l = Inr n)"
      by simp_all
    then show "\<exists>cs. commentFor env file chunk entry = Inr cs"
      by (rule commentFor_total)
  qed
  then show "\<exists>comments. createComment env file chunk (JArr entries) = Inr comments"
    by (simp add: createComment_def flatMap_total)
next
  fix comments
  assume "createComment env file chunk (JArr entries) = Inr comments"
  then have run: "flatMap (commentFor env file chunk) entries = Inr comments"
    by (simp add: createComment_def)
  show "\<forall>c \<in> set comments. line c \<in> validLines chunk"
    using flatMap_Inr [OF run] commentFor_line by blast
  assume "\<forall>entry \<in> set entries. \<forall>l n. readProperty entry ''lineNumber'' = Inr l \<longrightarrow>
            Number env l = Inr (Some n) \<longrightarrow> n \<notin> validLines chunk"
  then have "\<forall>entry \<in> set entries. \<forall>ys. commentFor env file chunk entry = Inr ys \<longrightarrow> ys = []"
    using commentFor_invalid by blast
  then show "comments = []"
    using flatMap_empty [OF run] by blast
qed

text \<open>
  C1 at the example hunk: of the entries for line 10, for line 9999 and for the line
  \<^verbatim>\<open>ten\<close>, none of which is \<^verbatim>\<open>null\<close> or makes the conversion throw, only the
  first gives a comment, and its line is eligible; the entry for line 9999 alone gives
  no comment.
\<close>

theorem createComment_lines_valid_witness:
  "JNull \<notin> set [entryValue, absentLineEntry, wordLineEntry]
   \<and> Number openedEnv (Some (JStr ''10'')) = Inr (Some 10)
   \<and> Number openedEnv (Some (JStr ''9999'')) = Inr (Some 9999)
   \<and> Number openedEnv (Some (JStr ''ten'')) = Inr None
   \<and> createComment openedEnv textFile additionChunk
        (JArr [entryValue, absentLineEntry, wordLineEntry]) = Inr [divisionComment]
   \<and> line divisionComment \<in> validLines additionChunk
   \<and> 9999 \<notin> validLines additionChunk
   \<and> createComment openedEnv textFile additionChunk (JArr [absentLineEntry]) = Inr []"
proof -
  have noNull: "JNull \<notin> set [entryValue, absentLineEntry, wordLineEntry]"
    by (simp add: entryValue_def absentLineEntry_def wordLineEntry_def)
  have ten: "Number openedEnv (Some (JStr ''10'')) = Inr (Some 10)"
    by code_simp
  have absentNumber: "Number openedEnv (Some (JStr ''9999'')) = Inr (Some 9999)"
    by code_simp
  have word: "Number openedEnv (Some (JStr ''ten'')) = Inr None"
    by code_simp
  have lines: "readProperty entryValue ''lineNumber'' = Inr (Some (JStr ''10''))"
    "readProperty absentLineEntry ''lineNumber'' = Inr (Some (JStr ''9999''))"
    "readProperty wordLineEntry ''lineNumber'' = Inr (Some (JStr ''ten''))"
    by (simp_all add: entryValue_def absentLineEntry_def wordLineEntry_def)
  have convertible: "\<forall>entry \<in> set [entryValue, absentLineEntry, wordLineEntry].
      entry \<noteq> JNull
      \<and> (\<forall>l. readProperty entry ''lineNumber'' = Inr l \<longrightarrow> (\<exists>n. Number openedEnv l = Inr n))"
    using noNull by (auto simp: lines ten absentNumber word)
  note claim = createComment_lines_valid
    [of "[entryValue, absentLineEntry, wordLineEntry]" openedEnv textFile additionChunk]
  from claim convertible obtain comments where
    returned: "createComment openedEnv textFile additionChunk
       (JArr [entryValue, absentLineEntry, wordLineEntry]) = Inr comments"
    by blast
  have run: "createComment openedEnv textFile additionChunk
        (JArr [entryValue, absentLineEntry, wordLineEntry]) = Inr [divisionComment]"
    by code_simp
  have "\<forall>c \<in> set [divisionComment]. line c \<in> validLines additionChunk"
    using claim run by blast
  then have eligible: "line divisionComment \<in> validLines additionChunk"
    by simp
  have absentLine: "9999 \<notin> validLines additionChunk"
    by (simp add: additionChunk_def addedLine_def validLines_def changedLineNumbers_def
        isAddOrDel_def getLineNumber_def)
  have ranAbsent: "createComment openedEnv textFile additionChunk (JArr [absentLineEntry]) = Inr []"
    by code_simp
  from noNull ten absentNumber word run eligible absentLine ranAbsent show ?thesis
    by simp
qed

text \<open>
  An entry whose line number cannot be converted makes \<open>createComment\<close> throw: the
  TypeError of \<^verbatim>\<open>Number\<close>, outside every \<^verbatim>\<open>try\<close>.
\<close>

lemma createComment_unconvertible:
  "createComment openedEnv textFile additionChunk (JArr [entryValue, unconvertibleEntry])
   = Inl TypeError"
  by code_simp

text \<open>
  C9. \<open>createComment\<close> distributes over the concatenation of the list of entries:
  the comments for \<open>xs @ ys\<close> are the comments for \<open>xs\<close> followed by the comments for
  \<open>ys\<close> (and the exception of the first failing entry, if one fails). So an entry gives
  the same comments wherever it stands, and an entry that occurs twice gives its comment
  twice.
\<close>

theorem createComment_append:
  "createComment env file chunk (JArr (xs @ ys)) =
     (case createComment env file chunk (JArr xs) of
        Inl e \<Rightarrow> Inl e
      | Inr cs \<Rightarrow>
          (case createComment env file chunk (JArr ys) of
             Inl e \<Rightarrow> Inl e
           | Inr ds \<Rightarrow> Inr (cs @ ds)))
   \<and> (createComment env file chunk (JArr [entry]) = Inr cs \<longrightarrow>
        createComment env file chunk (JArr [entry, entry]) = Inr (cs @ cs))"
proof
  show append: "createComment env file chunk (JArr (xs @ ys)) =
     (case createComment env file chunk (JArr xs) of
        Inl e \<Rightarrow> Inl e
      | Inr cs \<Rightarrow>
          (case createComment env file chunk (JArr ys) of
             Inl e \<Rightarrow> Inl e
           | Inr ds \<Rightarrow> Inr (cs @ ds)))" for xs ys
    unfolding createComment_JArr by (rule flatMap_append)
  show "createComment env file chunk (JArr [entry]) = Inr cs \<longrightarrow>
        createComment env file chunk (JArr [entry, entry]) = Inr (cs @ cs)"
    using append [of "[entry]" "[entry]"] by simp
qed

text \<open>C9 at the example hunk: the entry for line 10, given twice, gives two comments.\<close>

theorem createComment_append_witness:
  "createComment openedEnv textFile additionChunk (JArr [entryValue]) = Inr [divisionComment]
   \<and> createComment openedEnv textFile additionChunk (JArr [entryValue, entryValue])
       = Inr [divisionComment, divisionComment]
   \<and> createComment openedEnv textFile additionChunk (JArr ([absentLineEntry] @ [entryValue]))
       = Inr [divisionComment]"
proof -
  have one: "createComment openedEnv textFile additionChunk (JArr [entryValue]) = Inr [divisionComment]"
    by code_simp
  have none: "createComment openedEnv textFile additionChunk (JArr [absentLineEntry]) = Inr []"
    by code_simp
  from createComment_append
    [of openedEnv textFile additionChunk "[absentLineEntry]" "[entryValue]" entryValue "[divisionComment]"]
    one none
  show ?thesis by simp
qed

section \<open>The loops over the files and the chunks\<close>

lemma analyzeChunks_paths:
  "analyzeChunks env prDetails f fullFileContent chunks' comments tr = (Inr out, tr') \<Longrightarrow>
   c \<in> set out \<Longrightarrow> c \<in> set comments \<or> to f = Some (path c)"
proof (induction chunks' arbitrary: comments tr)
  case Nil
  then show ?case by simp
next
  case (Cons chunk rest)
  obtain aiResponse tr1 where
    ai: "getAIResponse env tr (createPrompt f chunk prDetails fullFileContent) = (aiResponse, tr1)"
    by (cases "getAIResponse env tr (createPrompt f chunk prDetails fullFileContent)")
  show ?case
  proof (cases "truthy aiResponse")
    case False
    then have "analyzeChunks env prDetails f fullFileContent rest comments tr1 = (Inr out, tr')"
      using Cons.prems(1) ai by (auto split: option.splits)
    then show ?thesis using Cons.IH Cons.prems(2) by blast
  next
    case True
    then obtain reviews where r: "aiResponse = Some reviews" by (cases aiResponse) auto
    with True Cons.prems(1) ai obtain newComments where
      new: "createComment env f chunk reviews = Inr newComments" and
      rest: "analyzeChunks env prDetails f fullFileContent rest (comments @ newComments) tr1 = (Inr out, tr')"
      by (auto split: sum.splits)
    from Cons.IH [OF rest Cons.prems(2)] createComment_path [OF new] show ?thesis by auto
  qed
qed

lemma analyzeFiles_paths:
  "analyzeFiles env prDetails files comments tr = (Inr out, tr') \<Longrightarrow>
   \<forall>c \<in> set comments. path c \<noteq> ''/dev/null'' \<Longrightarrow>
   \<forall>c \<in> set out. path c \<noteq> ''/dev/null''"
proof (induction files arbitrary: comments tr)
  case Nil
  then show ?case by simp
next
  case (Cons f rest)
  show ?case
  proof (cases "to f = Some ''/dev/null''")
    case True
    with Cons show ?thesis by simp
  next
    case False
    obtain fullFileContent tr1 where
      fc: "getFileContent env tr (owner prDetails) (repo prDetails) (to f)
             (''pull/'' @ showInt (pull_number prDetails) @ ''/head'') = (fullFileContent, tr1)"
      by (cases "getFileContent env tr (owner prDetails) (repo prDetails) (to f)
             (''pull/'' @ showInt (pull_number prDetails) @ ''/head'')")
    with False Cons.prems(1) obtain comments' tr2 where
      ch: "analyzeChunks env prDetails f (if fullFileContent = Some [] then None else fullFileContent)
             (chunks f) comments tr1 = (Inr comments', tr2)" and
      rest: "analyzeFiles env prDetails rest comments' tr2 = (Inr out, tr')"
      by (auto split: prod.splits sum.splits)
    have "\<forall>c \<in> set comments'. path c \<noteq> ''/dev/null''"
      using analyzeChunks_paths [OF ch] Cons.prems(2) False by metis
    from Cons.IH [OF rest this] show ?thesis .
  qed
qed

lemma analyzeFiles_skips_deleted:
  "analyzeFiles env prDetails (filter (\<lambda>file. to file \<noteq> Some ''/dev/null'') files) comments tr
   = analyzeFiles env prDetails files comments tr"
  by (induction files arbitrary: comments tr) (auto split: prod.splits sum.splits)

text \<open>
  C6. A file whose destination path is \<^verbatim>\<open>/dev/null\<close> is skipped before anything is
  done for it: \<open>analyzeCode\<close> returns the same result and the same record of effects (no
  content fetch, no prompt, no request to the model) as on the diff without such files;
  on a diff of such files only it does nothing at all; and no comment it returns has the
  path \<^verbatim>\<open>/dev/null\<close>.
\<close>

theorem analyzeCode_skips_deleted:
  "analyzeCode env tr parsedDiff prDetails
     = analyzeCode env tr (filter (\<lambda>file. to file \<noteq> Some ''/dev/null'') parsedDiff) prDetails
   \<and> ((\<forall>file \<in> set parsedDiff. to file = Some ''/dev/null'') \<longrightarrow>
        analyzeCode env tr parsedDiff prDetails = (Inr [], tr))
   \<and> (\<forall>comments tr'. analyzeCode env tr parsedDiff prDetails = (Inr comments, tr') \<longrightarrow>
        (\<forall>c \<in> set comments. path c \<noteq> ''/dev/null''))"
proof (intro conjI impI allI)
  show same: "analyzeCode env tr parsedDiff prDetails
     = analyzeCode env tr (filter (\<lambda>file. to file \<noteq> Some ''/dev/null'') parsedDiff) prDetails"
    by (simp add: analyzeCode_def analyzeFiles_skips_deleted)
  show "analyzeCode env tr parsedDiff prDetails = (Inr [], tr)"
    if "\<forall>file \<in> set parsedDiff. to file = Some ''/dev/null''"
  proof -
    from that have "filter (\<lambda>file. to file \<noteq> Some ''/dev/null'') parsedDiff = []"
      by (simp add: filter_empty_conv)
    with same show ?thesis by (simp add: analyzeCode_def)
  qed
  show "\<forall>c \<in> set comments. path c \<noteq> ''/dev/null''"
    if "analyzeCode env tr parsedDiff prDetails = (Inr comments, tr')" for comments tr'
    using analyzeFiles_paths [of env prDetails parsedDiff "[]" tr comments tr'] that
    by (simp add: analyzeCode_def)
qed

lemma analyzeCode_textFile:
  "analyzeCode openedEnv [] [textFile] openedDetails =
     (Inr [divisionComment],
      [GetContent ''octo'' ''demo'' (Some ''b.txt'') ''pull/7/head'',
       ChatCompletionsCreate (chatRequest (createPrompt textFile additionChunk openedDetails None))])"
  by code_simp

text \<open>
  C6 at a diff with the deleted file before b.txt: the deleted file leaves no trace, and
  the one comment is the comment on b.txt.
\<close>

theorem analyzeCode_skips_deleted_witness:
  "analyzeCode openedEnv [] [deletedFile] openedDetails = (Inr [], [])
   \<and> analyzeCode openedEnv [] [deletedFile, textFile] openedDetails
       = (Inr [divisionComment],
          [GetContent ''octo'' ''demo'' (Some ''b.txt'') ''pull/7/head'',
           ChatCompletionsCreate
             (chatRequest (createPrompt textFile additionChunk openedDetails None))])
   \<and> path divisionComment \<noteq> ''/dev/null''"
proof -
  have deleted: "to deletedFile = Some ''/dev/null''" and kept: "to textFile \<noteq> Some ''/dev/null''"
    by (simp_all add: deletedFile_def textFile_def)
  have "analyzeCode openedEnv [] [deletedFile] openedDetails = (Inr [], [])"
    using analyzeCode_skips_deleted [of openedEnv "[]" "[deletedFile]" openedDetails] deleted
    by (simp add: analyzeCode_def)
  moreover have "analyzeCode openedEnv [] [deletedFile, textFile] openedDetails
       = analyzeCode openedEnv [] [textFile] openedDetails"
    using analyzeCode_skips_deleted [of openedEnv "[]" "[deletedFile, textFile]" openedDetails]
      deleted kept
    by simp
  moreover have "path divisionComment \<noteq> ''/dev/null''"
    by (simp add: divisionComment_def)
  ultimately show ?thesis
    by (simp add: analyzeCode_textFile)
qed

subsection \<open>What a failing model request does to the loop\<close>

text \<open>
  When the request to the model provider is rejected, when the text of the answer is not
  JSON, and when the answer has no \<^verbatim>\<open>reviews\<close>, the chunk adds no comment and the
  loop goes on with the next chunk.
\<close>

lemma analyzeChunks_no_answer:
  "getAIResponse env tr (createPrompt f chunk prDetails fullFileContent) = (None, tr1) \<Longrightarrow>
   analyzeChunks env prDetails f fullFileContent (chunk # rest) comments tr
   = analyzeChunks env prDetails f fullFileContent rest comments tr1"
  by simp

lemma getAIResponse_rejected:
  "chatCompletionsCreate env tr (chatRequest prompt) = Inl e \<Longrightarrow>
   getAIResponse env tr prompt
   = (None, tr @ [ChatCompletionsCreate (chatRequest prompt), ConsoleError e])"
  by (simp add: getAIResponse_def)

lemma getAIResponse_unparsable:
  "chatCompletionsCreate env tr (chatRequest prompt) = Inr (Some text # others) \<Longrightarrow>
   trim text \<noteq> [] \<Longrightarrow> JSON_parse env (trim text) = None \<Longrightarrow>
   getAIResponse env tr prompt
   = (None, tr @ [ChatCompletionsCreate (chatRequest prompt), ConsoleError SyntaxError])"
  by (simp add: getAIResponse_def)

lemma getAIResponse_no_reviews:
  "chatCompletionsCreate env tr (chatRequest prompt) = Inr (Some text # others) \<Longrightarrow>
   trim text \<noteq> [] \<Longrightarrow> JSON_parse env (trim text) = Some (JObj kvs) \<Longrightarrow>
   map_of kvs ''reviews'' = None \<Longrightarrow>
   getAIResponse env tr prompt = (None, tr @ [ChatCompletionsCreate (chatRequest prompt)])"
  by (simp add: getAIResponse_def)

text \<open>
  An answer with \<^verbatim>\<open>reviews\<close> that is truthy and no array, or an array with a
  \<^verbatim>\<open>null\<close> entry for a file that has a destination path, makes
  \<open>createComment\<close> throw, and the loop ends there with that exception.
\<close>

lemma createComment_not_array:
  "\<forall>entries. aiResponses \<noteq> JArr entries \<Longrightarrow>
   createComment env file chunk aiResponses = Inl TypeError"
  by (cases aiResponses) (simp_all add: createComment_def)

lemma createComment_null_entry:
  "to file = Some fileTo \<Longrightarrow> fileTo \<noteq> [] \<Longrightarrow>
   createComment env file chunk (JArr (JNull # entries)) = Inl TypeError"
  by (simp add: createComment_def commentFor_def)

lemma createComment_no_destination:
  "to file = None \<or> to file = Some [] \<Longrightarrow>
   createComment env file chunk (JArr entries) = Inr []"
proof -
  assume "to file = None \<or> to file = Some []"
  then have "commentFor env file chunk entry = Inr []" for entry
    by (auto simp: commentFor_def)
  then have "flatMap (commentFor env file chunk) entries = Inr []"
    by (induction entries) simp_all
  then show ?thesis
    by (simp add: createComment_def)
qed

lemma analyzeChunks_throws:
  "getAIResponse env tr (createPrompt f chunk prDetails fullFileContent) = (Some reviews, tr1) \<Longrightarrow>
   truthy (Some reviews) \<Longrightarrow> createComment env f chunk reviews = Inl e \<Longrightarrow>
   analyzeChunks env prDetails f fullFileContent (chunk # rest) comments tr = (Inl e, tr1)"
  by simp

text \<open>
  C2 (the code does not do what the claim says). The model answers with JSON whose
  \<^verbatim>\<open>reviews\<close> is one object instead of an array of objects. \<open>getAIResponse\<close>
  returns that object, \<open>createComment\<close> throws the TypeError of
  \<^verbatim>\<open>aiResponses.flatMap\<close>, nothing in \<open>analyzeCode\<close> catches it, and the run ends
  with status 1: on a diff of two files the second file is never looked at.
\<close>

theorem analyzeCode_object_reply:
  "readReply objectReply = Some (JObj [(''reviews'', entryValue)])
   \<and> analyzeCode objectReplyEnv [] [textFile, textFile] openedDetails
       = (Inl TypeError,
          [GetContent ''octo'' ''demo'' (Some ''b.txt'') ''pull/7/head'',
           ChatCompletionsCreate
             (chatRequest (createPrompt textFile additionChunk openedDetails None))])
   \<and> main objectReplyEnv
       = (Failure TypeError,
          [PullsGet ''octo'' ''demo'' 7,
           PullsGetDiff ''octo'' ''demo'' 7,
           ParseDiff ''diff --git a/b.txt b/b.txt'',
           GetContent ''octo'' ''demo'' (Some ''b.txt'') ''pull/7/head'',
           ChatCompletionsCreate
             (chatRequest (createPrompt textFile additionChunk openedDetails None)),
           ConsoleError TypeError])"
  by code_simp

section \<open>The run\<close>

subsection \<open>Nothing but \<open>main\<close> reads the diff parser\<close>

lemma getAIResponse_parseDiff [simp]:
  "getAIResponse (env \<lparr> parseDiff := g \<rparr>) = getAIResponse env"
  by (auto simp: getAIResponse_def fun_eq_iff Let_def split: sum.splits list.splits option.splits)

lemma createComment_parseDiff [simp]:
  "createComment (env \<lparr> parseDiff := g \<rparr>) = createComment env"
proof -
  have cf: "commentFor (env \<lparr> parseDiff := g \<rparr>) = commentFor env"
    by (auto simp: commentFor_def fun_eq_iff split: sum.splits option.splits)
  show ?thesis
    unfolding createComment_def fun_eq_iff cf by simp
qed

lemma getFileContent_parseDiff [simp]:
  "getFileContent (env \<lparr> parseDiff := g \<rparr>) = getFileContent env"
  by (auto simp: getFileContent_def fun_eq_iff Let_def split: sum.splits)

lemma analyzeChunks_parseDiff [simp]:
  "analyzeChunks (env \<lparr> parseDiff := g \<rparr>) prDetails file fullFileContent chunks' comments tr
   = analyzeChunks env prDetails file fullFileContent chunks' comments tr"
  by (induction chunks' arbitrary: comments tr) (auto split: prod.splits option.splits sum.splits)

lemma analyzeFiles_parseDiff [simp]:
  "analyzeFiles (env \<lparr> parseDiff := g \<rparr>) prDetails files comments tr
   = analyzeFiles env prDetails files comments tr"
  by (induction files arbitrary: comments tr) (auto split: prod.splits sum.splits)



subsection \<open>The patterns of the exclusion input\<close>

text \<open>
  \<open>splitOn\<close> takes a text apart at every separator: it is the inverse of \<open>join\<close> on
  pieces that hold no separator. \<open>trim\<close> takes white space off both ends and nothing
  else.
\<close>

lemma splitOn_not_Nil: "splitOn sep s \<noteq> []"
  by (induction s) (auto split: list.splits)








text \<open>
  C10. When the exclusion input is empty, the list of patterns is the one empty string.
  With a \<open>minimatch\<close> that, like the library, takes the empty pattern to match the empty
  path and nothing else, the filter removes the files that have no destination path
  (or an empty one) and keeps every file with a destination path that is not empty.
\<close>

theorem default_exclude_patterns:
  assumes "getInput env ''exclude'' = []"
    and "\<forall>p. minimatch env p [] = (p = [])"
  shows "excludePatterns env = [[]]
       \<and> filteredDiff env (excludePatterns env) parsedDiff
           = filter (\<lambda>file. to file \<noteq> None \<and> to file \<noteq> Some []) parsedDiff"
proof -
  have pats: "excludePatterns env = [[]]"
    using assms(1) by (simp add: excludePatterns_def trim_def)
  have "filteredDiff env [[]] parsedDiff
           = filter (\<lambda>file. to file \<noteq> None \<and> to file \<noteq> Some []) parsedDiff"
    unfolding filteredDiff_def
    by (rule filter_cong [OF refl]) (auto simp: assms(2) split: option.splits)
  with pats show ?thesis by simp
qed

lemma globMatch_empty_pattern: "globMatch p [] = (p = [])"
  by (cases p) simp_all

text \<open>C10 at the example run, whose exclusion input is empty: the file without a destination path goes, b.txt stays.\<close>

theorem default_exclude_patterns_witness:
  "getInput openedEnv ''exclude'' = []
   \<and> excludePatterns openedEnv = [[]]
   \<and> minimatch openedEnv [] []
   \<and> filteredDiff openedEnv (excludePatterns openedEnv) [unnamedFile, textFile] = [textFile]"
proof -
  have input: "getInput openedEnv ''exclude'' = []"
    by (simp add: openedEnv_def)
  have empty: "\<forall>p. minimatch openedEnv p [] = (p = [])"
    by (simp add: openedEnv_def globMatch_empty_pattern)
  note run = default_exclude_patterns [OF input empty, of "[unnamedFile, textFile]"]
  from run have patterns: "excludePatterns openedEnv = [[]]"
    by (rule conjunct1)
  from run have "filteredDiff openedEnv (excludePatterns openedEnv) [unnamedFile, textFile]
      = filter (\<lambda>file. to file \<noteq> None \<and> to file \<noteq> Some []) [unnamedFile, textFile]"
    by (rule conjunct2)
  then have kept: "filteredDiff openedEnv (excludePatterns openedEnv) [unnamedFile, textFile]
      = [textFile]"
    by (simp add: unnamedFile_def textFile_def)
  from empty have "minimatch openedEnv [] []"
    by simp
  with input patterns kept show ?thesis
    by simp
qed

text \<open>
  C8. For every event whose action is neither \<^verbatim>\<open>opened\<close> nor
  \<^verbatim>\<open>synchronize\<close>, the run makes the metadata fetch and no other request: no diff
  fetch, no diff parsing, no model request, no review. Once the metadata fetch has
  completed, the run logs the unsupported event and ends with success, and nothing is
  thrown. (The metadata fetch comes before the action is looked at; when the host rejects
  it, the run ends with that error, as for every action.)
\<close>

theorem main_unsupported_event:
  assumes "eventPayload env = Inr eventData"
    and "action eventData \<noteq> Some (JStr ''opened'')"
    and "action eventData \<noteq> Some (JStr ''synchronize'')"
  shows "main env =
     (case pullsGet env [] (repository_owner_login eventData) (repository_name eventData)
             (number eventData) of
        Inl e \<Rightarrow>
          (Failure e,
           [PullsGet (repository_owner_login eventData) (repository_name eventData) (number eventData),
            ConsoleError e])
      | Inr details \<Rightarrow>
          (Success,
           [PullsGet (repository_owner_login eventData) (repository_name eventData) (number eventData),
            ConsoleLog ''Unsupported event:'']))"
  using assms
  by (simp add: main_def getPRDetails_def fetchDiff_def Let_def split: sum.splits prod.splits)

text \<open>C8 at the run on a closed pull request.\<close>

theorem main_unsupported_event_witness:
  "eventPayload closedEnv = Inr closedEvent
   \<and> action closedEvent = Some (JStr ''closed'')
   \<and> main closedEnv = (Success, [PullsGet ''octo'' ''demo'' 7, ConsoleLog ''Unsupported event:''])"
proof -
  have payload: "eventPayload closedEnv = Inr closedEvent"
    by (simp add: closedEnv_def)
  have closed: "action closedEvent = Some (JStr ''closed'')"
    by (simp add: closedEvent_def)
  have fetched: "pullsGet closedEnv [] ''octo'' ''demo'' 7 = Inr (Some ''Add division'', None)"
    by (simp add: closedEnv_def openedEnv_def)
  have event: "repository_owner_login closedEvent = ''octo''" "repository_name closedEvent = ''demo''"
    "number closedEvent = 7"
    by (simp_all add: closedEvent_def openedEvent_def)
  from main_unsupported_event [OF payload, unfolded event fetched] closed payload
  show ?thesis
    by simp
qed

text \<open>
  The same event when the host rejects the metadata fetch: the error of the fetch ends
  the run before the action is looked at.
\<close>

lemma main_closed_rejected:
  "eventPayload closedRejectedEnv = Inr closedEvent
   \<and> action closedEvent = Some (JStr ''closed'')
   \<and> main closedRejectedEnv
       = (Failure (RequestError ''Not Found''),
          [PullsGet ''octo'' ''demo'' 7, ConsoleError (RequestError ''Not Found'')])"
  by code_simp

subsection \<open>The requests to the model provider\<close>

lemma requestsFixed_Nil [simp]: "requestsFixed []"
  by (simp add: requestsFixed_def)

lemma requestsFixed_Cons [simp]:
  "requestsFixed (performed # tr) \<longleftrightarrow>
     (case performed of ChatCompletionsCreate request \<Rightarrow> samplingFixed request | _ \<Rightarrow> True)
     \<and> requestsFixed tr"
  by (simp add: requestsFixed_def)

lemma requestsFixed_append [simp]:
  "requestsFixed (xs @ ys) \<longleftrightarrow> requestsFixed xs \<and> requestsFixed ys"
  by (simp add: requestsFixed_def)

lemma samplingFixed_chatRequest [simp]: "samplingFixed (chatRequest prompt)"
  by (simp add: samplingFixed_def chatRequest_def)

lemma getAIResponse_requests:
  "getAIResponse env tr prompt = (aiResponse, tr') \<Longrightarrow> requestsFixed tr \<Longrightarrow> requestsFixed tr'"
  by (auto simp: getAIResponse_def Let_def split: sum.splits list.splits option.splits)

lemma getFileContent_requests:
  "getFileContent env tr owner' repo' path' ref = (fileText, tr') \<Longrightarrow> requestsFixed tr \<Longrightarrow>
   requestsFixed tr'"
  by (auto simp: getFileContent_def Let_def split: sum.splits)

lemma analyzeChunks_requests:
  "analyzeChunks env prDetails f fullFileContent chunks' comments tr = (result, tr') \<Longrightarrow>
   requestsFixed tr \<Longrightarrow> requestsFixed tr'"
proof (induction chunks' arbitrary: comments tr)
  case Nil
  then show ?case by simp
next
  case (Cons chunk rest)
  obtain aiResponse tr1 where
    ai: "getAIResponse env tr (createPrompt f chunk prDetails fullFileContent) = (aiResponse, tr1)"
    by (cases "getAIResponse env tr (createPrompt f chunk prDetails fullFileContent)")
  have tr1: "requestsFixed tr1"
    using getAIResponse_requests [OF ai Cons.prems(2)] .
  from Cons.prems(1) ai have
    "(\<exists>comments'. analyzeChunks env prDetails f fullFileContent rest comments' tr1 = (result, tr'))
     \<or> tr' = tr1"
    by (auto split: option.splits if_splits sum.splits)
  then show ?case using Cons.IH tr1 by blast
qed

lemma analyzeFiles_requests:
  "analyzeFiles env prDetails files comments tr = (result, tr') \<Longrightarrow> requestsFixed tr \<Longrightarrow>
   requestsFixed tr'"
proof (induction files arbitrary: comments tr)
  case Nil
  then show ?case by simp
next
  case (Cons f rest)
  show ?case
  proof (cases "to f = Some ''/dev/null''")
    case True
    with Cons show ?thesis by simp
  next
    case False
    obtain fullFileContent tr1 where
      fc: "getFileContent env tr (owner prDetails) (repo prDetails) (to f)
             (''pull/'' @ showInt (pull_number prDetails) @ ''/head'') = (fullFileContent, tr1)"
      by (cases "getFileContent env tr (owner prDetails) (repo prDetails) (to f)
             (''pull/'' @ showInt (pull_number prDetails) @ ''/head'')")
    have tr1: "requestsFixed tr1"
      using getFileContent_requests [OF fc Cons.prems(2)] .
    obtain outcome' tr2 where
      ch: "analyzeChunks env prDetails f (if fullFileContent = Some [] then None else fullFileContent)
             (chunks f) comments tr1 = (outcome', tr2)"
      by (cases "analyzeChunks env prDetails f
             (if fullFileContent = Some [] then None else fullFileContent) (chunks f) comments tr1")
    have tr2: "requestsFixed tr2"
      using analyzeChunks_requests [OF ch tr1] .
    from Cons.prems(1) False fc ch have
      "(\<exists>comments'. analyzeFiles env prDetails rest comments' tr2 = (result, tr')) \<or> tr' = tr2"
      by (auto split: sum.splits)
    then show ?thesis using Cons.IH tr2 by blast
  qed
qed

text \<open>
  In every run, every request to the model provider carries the model identifier
  \<^verbatim>\<open>gpt-4o-2024-11-20\<close>, temperature 0.1, at most 1000 tokens, top_p 1, both
  penalties 0.1 and the JSON response format, whatever the configuration holds.
\<close>

lemma main_requests: "requestsFixed (snd (main env))"
proof -
  obtain details tr where pr: "getPRDetails env [] = (details, tr)"
    by (cases "getPRDetails env []")
  have tr: "requestsFixed tr"
    using pr by (auto simp: getPRDetails_def Let_def split: sum.splits prod.splits)
  have fetch: "requestsFixed tr1"
    if "fetchDiff env tr prDetails eventData = (fetched, tr1)" for prDetails eventData fetched tr1
    using that tr
    by (auto simp: fetchDiff_def getDiff_def Let_def split: if_splits sum.splits)
  have analyze: "requestsFixed tr3"
    if "analyzeCode env (tr1 @ [ParseDiff diff]) files prDetails = (result, tr3)" "requestsFixed tr1"
    for tr1 diff files prDetails result tr3
    using analyzeFiles_requests [of env prDetails files "[]" "tr1 @ [ParseDiff diff]" result tr3] that
    by (simp add: analyzeCode_def)
  show ?thesis
    using pr tr
    by (auto simp: main_def Let_def createReviewComment_def
             split: sum.splits prod.splits option.splits if_splits
             dest: fetch analyze)
qed

text \<open>
  The run on the opened pull request: one request to the model, and one review with the
  one comment on line 10 of b.txt.
\<close>

lemma main_opened:
  "main openedEnv
     = (Success,
        [PullsGet ''octo'' ''demo'' 7,
         PullsGetDiff ''octo'' ''demo'' 7,
         ParseDiff ''diff --git a/b.txt b/b.txt'',
         GetContent ''octo'' ''demo'' (Some ''b.txt'') ''pull/7/head'',
         ChatCompletionsCreate
           (chatRequest (createPrompt textFile additionChunk openedDetails None)),
         CreateReview ''octo'' ''demo'' 7 [divisionComment]])"
  by code_simp

text \<open>
  C3 (the code does not do what the claim says). The configuration names the model
  gpt-4; the constant \<open>OPENAI_API_MODEL\<close> holds it and nothing reads the constant: the
  one request of the run is sent with the model identifier that \<open>chatRequest\<close> spells
  out. The sampling configuration and the response format are as the claim says.
\<close>

theorem main_ignores_configured_model:
  "OPENAI_API_MODEL openedEnv = ''gpt-4''
   \<and> filter (\<lambda>performed. case performed of ChatCompletionsCreate request \<Rightarrow> True | _ \<Rightarrow> False)
        (snd (main openedEnv))
       = [ChatCompletionsCreate
            (chatRequest (createPrompt textFile additionChunk openedDetails None))]
   \<and> model (chatRequest (createPrompt textFile additionChunk openedDetails None))
       = ''gpt-4o-2024-11-20''
   \<and> samplingFixed (chatRequest (createPrompt textFile additionChunk openedDetails None))"
proof -
  have "OPENAI_API_MODEL openedEnv = ''gpt-4''"
    by (simp add: OPENAI_API_MODEL_def openedEnv_def)
  moreover have "model (chatRequest prompt) = ''gpt-4o-2024-11-20''" for prompt
    by (simp add: chatRequest_def)
  ultimately show ?thesis
    by (simp add: main_opened)
qed

end
